theory Spec2Isabelle
  imports Complex_Main "HOL-Library.AList"
begin

section \<open>JavaScript strings\<close>

text \<open>
  A JavaScript string is modelled as a \<^typ>\<open>string\<close>, one \<^typ>\<open>char\<close> per code unit, so
  \<open>length\<close> is the source's \<open>.length\<close>. Only code units below 256 are representable;
  among them \<open>toLowerCase\<close> changes the letters \<open>A\<close> to \<open>Z\<close> and the Latin-1 capitals
  \<open>0xC0\<close> to \<open>0xDE\<close> (the multiplication sign \<open>0xD7\<close> apart), each by 32.
\<close>

definition toLowerChar :: "char \<Rightarrow> char" where
  "toLowerChar c =
     (let n = (of_char c :: nat)
      in if (65 \<le> n \<and> n \<le> 90) \<or> (192 \<le> n \<and> n \<le> 222 \<and> n \<noteq> 215) then char_of (n + 32) else c)"

definition toLowerCase :: "string \<Rightarrow> string" where
  "toLowerCase s = map toLowerChar s"

text \<open>\<open>s.includes(sub)\<close>: \<open>sub\<close> occurs in \<open>s\<close> as a contiguous substring.\<close>

fun includes_str :: "string \<Rightarrow> string \<Rightarrow> bool" where
  "includes_str [] sub = (sub = [])"
| "includes_str (c # cs) sub = (take (length sub) (c # cs) = sub \<or> includes_str cs sub)"

text \<open>\<open>s.split(sep)\<close> for a one-character separator; the result is never empty.\<close>

fun split_on :: "char \<Rightarrow> string \<Rightarrow> string list" where
  "split_on sep [] = [[]]"
| "split_on sep (c # cs) =
     (if c = sep then [] # split_on sep cs
      else (case split_on sep cs of [] \<Rightarrow> [[c]] | w # ws \<Rightarrow> (c # w) # ws))"

definition is_terminator :: "char \<Rightarrow> bool" where
  "is_terminator c = (c = CHR ''.'' \<or> c = CHR ''!'' \<or> c = CHR ''?'')"

text \<open>\<open>s.split(/[.!?]+/)\<close>: a maximal run of terminators is one separator.\<close>

function split_sentences :: "string \<Rightarrow> string list" where
  "split_sentences [] = [[]]"
| "split_sentences (c # cs) =
     (if is_terminator c then [] # split_sentences (dropWhile is_terminator cs)
      else (case split_sentences cs of [] \<Rightarrow> [[c]] | w # ws \<Rightarrow> (c # w) # ws))"
  by pat_completeness auto
termination
  by (relation "measure length") (auto simp: less_Suc_eq_le length_dropWhile_le)

definition is_space :: "char \<Rightarrow> bool" where
  "is_space c = (c \<in> set [CHR '' '', CHR 0x09, CHR 0x0A, CHR 0x0B, CHR 0x0C, CHR 0x0D, CHR 0xA0])"

definition trim :: "string \<Rightarrow> string" where
  "trim s = rev (dropWhile is_space (rev (dropWhile is_space s)))"

text \<open>
  \<open>n.toString(radix)\<close> for a natural number \<open>n\<close> and a radix from 2 to 36.
\<close>

definition digit_char :: "nat \<Rightarrow> char" where
  "digit_char d = ''0123456789abcdefghijklmnopqrstuvwxyz'' ! d"

function toStringRadix :: "nat \<Rightarrow> nat \<Rightarrow> string" where
  "toStringRadix radix n =
     (if radix < 2 \<or> n < radix then [digit_char n]
      else toStringRadix radix (n div radix) @ [digit_char (n mod radix)])"
  by pat_completeness auto
termination
  by (relation "measure snd") auto

text \<open>
  The integers a JavaScript number holds exactly, of magnitude at most \<open>2\<^sup>5\<^sup>3 - 1\<close>: clock
  readings and result limits. A template literal renders them in plain decimal (exponent
  notation starts at \<open>10\<^sup>2\<^sup>1\<close>, outside the type).
\<close>

typedef safe_integer = "{i :: int. \<bar>i\<bar> \<le> 9007199254740991}"
  by (intro exI [of _ 0]) simp

definition number_to_string :: "safe_integer \<Rightarrow> string" where
  "number_to_string n =
     (let i = Rep_safe_integer n
      in if i < 0 then CHR ''-'' # toStringRadix 10 (nat (- i)) else toStringRadix 10 (nat i))"

section \<open>EmbeddingService.chunkDocument\<close>

definition sentences :: "string \<Rightarrow> string list" where
  "sentences content = filter (\<lambda>s. length (trim s) > 0) (split_sentences content)"

fun chunk_step :: "int \<Rightarrow> string list \<times> string \<Rightarrow> string \<Rightarrow> string list \<times> string" where
  "chunk_step maxChunkSize (chunks, currentChunk) sentence =
     (let trimmedSentence = trim sentence in
      if int (length currentChunk) + int (length trimmedSentence) > maxChunkSize
      then ((if length currentChunk > 0 then chunks @ [trim currentChunk] else chunks),
            trimmedSentence)
      else (chunks,
            currentChunk @ (if length currentChunk > 0 then ''. '' else '''') @ trimmedSentence))"

definition chunkDocument :: "string \<Rightarrow> int \<Rightarrow> int \<Rightarrow> string list" where
  "chunkDocument content maxChunkSize overlapSize =
     (case foldl (chunk_step maxChunkSize) ([], '''') (sentences content) of
        (chunks, currentChunk) \<Rightarrow>
          if length currentChunk > 0 then chunks @ [trim currentChunk] else chunks)"

section \<open>JavaScript numbers\<close>

text \<open>
  A JavaScript number is a finite value, an infinity or NaN. Finite values are modelled as
  reals (rounding and the sign of zero are not modelled); the special values are explicit,
  because HOL's own \<open>x / 0\<close> is \<open>0\<close> and would hide them.
\<close>

datatype number = Num real | PInf | NInf | NaN

fun js_add :: "number \<Rightarrow> number \<Rightarrow> number" where
  "js_add NaN _ = NaN"
| "js_add _ NaN = NaN"
| "js_add (Num a) (Num b) = Num (a + b)"
| "js_add PInf NInf = NaN"
| "js_add NInf PInf = NaN"
| "js_add PInf _ = PInf"
| "js_add _ PInf = PInf"
| "js_add NInf _ = NInf"
| "js_add _ NInf = NInf"

definition js_neg :: "number \<Rightarrow> number" where
  "js_neg x = (case x of Num a \<Rightarrow> Num (- a) | PInf \<Rightarrow> NInf | NInf \<Rightarrow> PInf | NaN \<Rightarrow> NaN)"

definition js_sign :: "real \<Rightarrow> number \<Rightarrow> number" where
  "js_sign a x = (if a = 0 then NaN else if a > 0 then x else js_neg x)"

fun js_mul :: "number \<Rightarrow> number \<Rightarrow> number" where
  "js_mul NaN _ = NaN"
| "js_mul _ NaN = NaN"
| "js_mul (Num a) (Num b) = Num (a * b)"
| "js_mul (Num a) PInf = js_sign a PInf"
| "js_mul (Num a) NInf = js_sign a NInf"
| "js_mul PInf (Num b) = js_sign b PInf"
| "js_mul NInf (Num b) = js_sign b NInf"
| "js_mul PInf PInf = PInf"
| "js_mul NInf NInf = PInf"
| "js_mul PInf NInf = NInf"
| "js_mul NInf PInf = NInf"

fun js_div :: "number \<Rightarrow> number \<Rightarrow> number" where
  "js_div NaN _ = NaN"
| "js_div _ NaN = NaN"
| "js_div (Num a) (Num b) = (if b = 0 then js_sign a PInf else Num (a / b))"
| "js_div (Num a) _ = Num 0"
| "js_div PInf (Num b) = (if b \<ge> 0 then PInf else NInf)"
| "js_div NInf (Num b) = (if b \<ge> 0 then NInf else PInf)"
| "js_div _ _ = NaN"

text \<open>\<open>Math.min\<close> of two arguments.\<close>

fun js_min :: "number \<Rightarrow> number \<Rightarrow> number" where
  "js_min NaN _ = NaN"
| "js_min _ NaN = NaN"
| "js_min NInf _ = NInf"
| "js_min _ NInf = NInf"
| "js_min PInf y = y"
| "js_min x PInf = x"
| "js_min (Num a) (Num b) = Num (min a b)"



text \<open>The comparisons \<open>x >= y\<close> and \<open>x > y\<close>; both are false when an operand is NaN.\<close>

fun js_ge :: "number \<Rightarrow> number \<Rightarrow> bool" where
  "js_ge NaN _ = False"
| "js_ge _ NaN = False"
| "js_ge (Num a) (Num b) = (a \<ge> b)"
| "js_ge PInf _ = True"
| "js_ge _ NInf = True"
| "js_ge _ _ = False"






section \<open>Documents\<close>

text \<open>
  The stored wellness document and the document snapshot of a search result, with the
  fields the retrieval code reads. \<open>doc_id\<close> is the source's \<open>id\<close>, \<open>mongo_id\<close> its
  optional \<open>_id\<close>.
\<close>

record document =
  doc_id :: string
  mongo_id :: "string option"
  title :: string
  content :: string
  category :: string
  doc_keywords :: "string list"
  evidence_level :: string
  source :: string
  embedding :: "real list option"

text \<open>The \<open>context\<close> sub-object of a conversation context.\<close>

record user_context =
  healthConditions :: "string list option"
  medications :: "string list option"
  wellnessGoals :: "string list option"
  recentTopics :: "string list option"
  communicationStyle :: "string option"

datatype error = Error string

section \<open>EmbeddingService.calculateSimilarity\<close>

definition calculateSimilarity :: "real list \<Rightarrow> real list \<Rightarrow> error + number" where
  "calculateSimilarity embedding1 embedding2 =
     (if length embedding1 \<noteq> length embedding2
      then Inl (Error ''Embedding dimensions must match'')
      else
        let dotProduct = foldl (\<lambda>sum (val, w). sum + val * w) 0 (zip embedding1 embedding2);
            magnitude1 = sqrt (foldl (\<lambda>sum val. sum + val * val) 0 embedding1);
            magnitude2 = sqrt (foldl (\<lambda>sum val. sum + val * val) 0 embedding2)
        in Inr (js_div (Num dotProduct) (Num (magnitude1 * magnitude2))))"

section \<open>Lexical relevance\<close>

text \<open>\<open>VectorSearchService.calculateRelevance\<close>.\<close>

definition calculateRelevance :: "document \<Rightarrow> string \<Rightarrow> number" where
  "calculateRelevance doc query =
     (let relevance = Num 0;
          queryLower = toLowerCase query;
          relevance = (if includes_str (toLowerCase (title doc)) queryLower
                       then js_add relevance (Num 0.3) else relevance);
          keywordMatches = length (filter (\<lambda>keyword. includes_str (toLowerCase keyword) queryLower)
                                     (doc_keywords doc));
          relevance = js_add relevance
                        (js_mul (js_div (Num (real keywordMatches)) (Num (real (length (doc_keywords doc)))))
                                (Num 0.4));
          contentWords = split_on CHR '' '' (toLowerCase (content doc));
          queryWords = split_on CHR '' '' (toLowerCase query);
          contentMatches = length (filter (\<lambda>word. list_ex (\<lambda>contentWord. includes_str contentWord word)
                                                         contentWords) queryWords);
          relevance = js_add relevance
                        (js_mul (js_div (Num (real contentMatches)) (Num (real (length queryWords))))
                                (Num 0.3))
      in js_min relevance (Num 1.0))"

text \<open>
  \<open>RAGService.calculateUserDocumentRelevance\<close>: the same three terms, then the share of
  the user's health conditions that occur in the content, guarded by a length test.
\<close>

definition calculateUserDocumentRelevance :: "document \<Rightarrow> string \<Rightarrow> user_context \<Rightarrow> number" where
  "calculateUserDocumentRelevance doc query userContext =
     (let relevance = Num 0;
          queryLower = toLowerCase query;
          relevance = (if includes_str (toLowerCase (title doc)) queryLower
                       then js_add relevance (Num 0.3) else relevance);
          keywordMatches = length (filter (\<lambda>keyword. includes_str (toLowerCase keyword) queryLower)
                                     (doc_keywords doc));
          relevance = js_add relevance
                        (js_mul (js_div (Num (real keywordMatches)) (Num (real (length (doc_keywords doc)))))
                                (Num 0.4));
          contentWords = split_on CHR '' '' (toLowerCase (content doc));
          queryWords = split_on CHR '' '' (toLowerCase query);
          contentMatches = length (filter (\<lambda>word. list_ex (\<lambda>contentWord. includes_str contentWord word)
                                                         contentWords) queryWords);
          relevance = js_add relevance
                        (js_mul (js_div (Num (real contentMatches)) (Num (real (length queryWords))))
                                (Num 0.3));
          relevance =
            (case healthConditions userContext of
               None \<Rightarrow> relevance
             | Some conditions \<Rightarrow>
                 if length conditions = 0 then relevance
                 else
                   let conditionMatches =
                         length (filter (\<lambda>condition. includes_str (toLowerCase (content doc))
                                                              (toLowerCase condition)) conditions)
                   in js_add relevance
                        (js_mul (js_div (Num (real conditionMatches)) (Num (real (length conditions))))
                                (Num 0.2)))
      in js_min relevance (Num 1.0))"

section \<open>VectorSearchService\<close>

text \<open>
  A search result pairs a document snapshot with two scores and a context string (the
  source's \<open>context\<close> field is \<open>result_context\<close> here). The scores are JavaScript numbers:
  the searches store what \<open>calculateSimilarity\<close> and \<open>calculateRelevance\<close> return.
\<close>

record SearchResult =
  document :: document
  score :: number
  relevance :: number
  result_context :: string















section \<open>CacheService\<close>

text \<open>
  A cached response. \<open>resp_query\<close> is the source's \<open>query\<close> field of the response;
  \<open>processingTime\<close> is in milliseconds.
\<close>

record response_metadata =
  vectorSearchTime :: real
  rerankingTime :: real
  cacheHit :: bool

record RAGResponse =
  resp_query :: string
  response :: string
  results :: "SearchResult list"
  totalResults :: nat
  processingTime :: int
  model :: string
  sources :: "string list"
  confidence :: real
  metadata :: response_metadata

text \<open>
  The entry stored under a key: the response, the time of the \<open>set\<close> in milliseconds and
  the time to live in seconds. The store maps keys to entries; \<open>redisUp\<close> says whether
  the store answers (every operation catches a store error and degrades to a miss). The
  store's own expiry of a key, \<open>ttl\<close> seconds after the \<open>set\<close>, removes an entry that the
  validity test of \<open>get\<close> would reject anyway, and is not modelled apart from that test.
  \<open>get\<close> treats an entry with a falsy \<open>ttl\<close> as malformed and deletes it.
\<close>

record CacheEntry =
  entry_value :: RAGResponse
  timestamp :: int
  ttl :: int

type_synonym cache = "string \<rightharpoonup> CacheEntry"

definition cache_get :: "bool \<Rightarrow> cache \<Rightarrow> int \<Rightarrow> string \<Rightarrow> RAGResponse option \<times> cache" where
  "cache_get redisUp store now k =
     (if \<not> redisUp then (None, store)
      else (case store k of
              None \<Rightarrow> (None, store)
            | Some parsed \<Rightarrow>
                if ttl parsed = 0 then (None, store(k := None))
                else if now - timestamp parsed < ttl parsed * 1000
                then (Some (entry_value parsed), store)
                else (None, store(k := None))))"

definition cache_set :: "bool \<Rightarrow> cache \<Rightarrow> int \<Rightarrow> string \<Rightarrow> RAGResponse \<Rightarrow> int \<Rightarrow> cache" where
  "cache_set redisUp store now k v t =
     (if \<not> redisUp then store
      else store(k \<mapsto> \<lparr>entry_value = v, timestamp = now, ttl = t\<rparr>))"

section \<open>CacheService.generateCacheKey\<close>

text \<open>
  \<open>simpleHash\<close>: \<open>hash = (hash << 5) - hash + char; hash = hash & hash\<close>. Both \<open><<\<close> and
  \<open>&\<close> convert to a signed 32-bit integer, written out as \<open>toInt32\<close>; the subtraction and
  the addition between them are exact. The result is the base-36 rendering of the
  absolute value.
\<close>

definition toInt32 :: "int \<Rightarrow> int" where
  "toInt32 x = (x + 2147483648) mod 4294967296 - 2147483648"

definition hash_step :: "int \<Rightarrow> char \<Rightarrow> int" where
  "hash_step hash c = toInt32 (toInt32 (hash * 32) - hash + int (of_char c))"

definition simpleHash :: "string \<Rightarrow> string" where
  "simpleHash str = toStringRadix 36 (nat \<bar>foldl hash_step 0 str\<bar>)"

text \<open>
  \<open>generateCacheKey\<close>; \<open>filterJson\<close> is \<open>JSON.stringify(filters)\<close> when filters are given.
\<close>

definition generateCacheKey :: "string \<Rightarrow> string option \<Rightarrow> string option \<Rightarrow> string" where
  "generateCacheKey q filterJson uid =
     (let filterString = (case filterJson of Some j \<Rightarrow> j | None \<Rightarrow> []);
          userString = (case uid of
                          Some u \<Rightarrow> if u \<noteq> [] then '':user:'' @ u else []
                        | None \<Rightarrow> []);
          queryHash = simpleHash (q @ filterString @ userString)
      in ''rag:search:'' @ queryHash)"

section \<open>RAGService.searchDocuments\<close>

text \<open>The query; \<open>sources_filter\<close> is the \<open>sources\<close> field of the filters.\<close>

record query_filters =
  categories :: "string list option"
  evidenceLevels :: "string list option"
  sources_filter :: "string list option"

record RAGQuery =
  query :: string
  userId :: "string option"
  filters :: "query_filters option"
  limit :: "safe_integer option"

text \<open>
  The key at line 44, \<open>`search:${query.query}:${query.userId}:${query.limit}`\<close>; an absent
  field renders as \<open>undefined\<close>.
\<close>

definition searchCacheKey :: "RAGQuery \<Rightarrow> string" where
  "searchCacheKey q =
     ''search:'' @ query q @ '':''
       @ (case userId q of None \<Rightarrow> ''undefined'' | Some u \<Rightarrow> u) @ '':''
       @ (case limit q of None \<Rightarrow> ''undefined'' | Some n \<Rightarrow> number_to_string n)"

text \<open>
  \<open>searchDocuments\<close> at clock reading \<open>startTime\<close>, the search taking \<open>elapsed\<close>
  milliseconds. \<open>searchOutcome\<close> is what the awaited \<open>hybridSearch\<close> call settles with:
  \<open>Inr\<close> its result list, \<open>Inl\<close> a rejection, which the \<open>catch\<close> block turns into the
  fallback response. The model name is the embedding configuration's \<open>mistral-embed\<close>.
\<close>

definition searchDocuments ::
  "int \<Rightarrow> int \<Rightarrow> bool \<Rightarrow> cache \<Rightarrow> error + SearchResult list \<Rightarrow> RAGQuery
     \<Rightarrow> RAGResponse \<times> cache" where
  "searchDocuments startTime elapsed redisUp store searchOutcome q =
     (let cacheKey = searchCacheKey q in
      case cache_get redisUp store startTime cacheKey of
        (Some cachedResult, store') \<Rightarrow> (cachedResult, store')
      | (None, store') \<Rightarrow>
          (case searchOutcome of
             Inr rs \<Rightarrow>
               let processingTime = elapsed;
                   response =
                     \<lparr>resp_query = query q, response = [], results = rs,
                      totalResults = length rs, processingTime = processingTime,
                      model = ''mistral-embed'',
                      sources = filter (\<lambda>src. src \<noteq> []) (map (\<lambda>r. source (document r)) rs),
                      confidence = 0.8,
                      metadata = \<lparr>vectorSearchTime = real_of_int processingTime * 0.7,
                                  rerankingTime = real_of_int processingTime * 0.3,
                                  cacheHit = False\<rparr>\<rparr>
               in (response, cache_set redisUp store' (startTime + elapsed) cacheKey response 3600)
           | Inl e \<Rightarrow>
               (\<lparr>resp_query = query q, response = [], results = [], totalResults = 0,
                 processingTime = elapsed, model = ''fallback'', sources = [],
                 confidence = 0.0,
                 metadata = \<lparr>vectorSearchTime = 0, rerankingTime = 0, cacheHit = False\<rparr>\<rparr>,
                store')))"

section \<open>MistralApiService: the registry of active generations\<close>

text \<open>
  The provider's reply, reduced to what the callers read: per choice, \<open>message?.content\<close>.
\<close>

record MistralResponse =
  choices :: "string option list"

text \<open>
  What \<open>callMistralAPI\<close> settles with: a returned response, a returned \<open>null\<close>
  (\<open>Returned None\<close>, the provider failure), or a thrown error.
\<close>

datatype api_outcome = Returned "MistralResponse option" | Threw error

text \<open>
  Abort controllers live in a store, \<open>aborted\<close>, indexed by address: the registry and the
  request in flight share the controller, and \<open>cancelGeneration\<close> reaches the request
  through it.
\<close>

record mistral_state =
  useFallback :: bool
  activeGenerations :: "string \<rightharpoonup> nat"
  aborted :: "nat \<Rightarrow> bool"
  next_controller :: nat

text \<open>What the awaited HTTP request settles with.\<close>

record http_error =
  err_name :: string
  err_code :: "string option"

datatype http_result = Fulfilled "MistralResponse option" | Rejected http_error

datatype call_start = Immediate api_outcome | Pending nat

text \<open>\<open>if (generationId) this.activeGenerations.delete(generationId)\<close>.\<close>

definition forget :: "string option \<Rightarrow> mistral_state \<Rightarrow> mistral_state" where
  "forget generationId st =
     (case generationId of
        None \<Rightarrow> st
      | Some g \<Rightarrow> if g = [] then st
                  else st\<lparr>activeGenerations := (activeGenerations st)(g := None)\<rparr>)"

text \<open>\<open>callMistralAPI\<close> up to its \<open>await\<close>: a new controller, registered under the id.\<close>

definition callMistralAPI_begin :: "mistral_state \<Rightarrow> string option \<Rightarrow> call_start \<times> mistral_state" where
  "callMistralAPI_begin st generationId =
     (if useFallback st then (Immediate (Returned None), st)
      else
        let abortController = next_controller st;
            st1 = st\<lparr>aborted := (aborted st)(abortController := False),
                     next_controller := Suc abortController\<rparr>;
            st2 = (case generationId of
                     None \<Rightarrow> st1
                   | Some g \<Rightarrow> if g = [] then st1
                               else st1\<lparr>activeGenerations :=
                                          (activeGenerations st1)(g \<mapsto> abortController)\<rparr>)
        in (Pending abortController, st2))"

definition is_abort :: "http_error \<Rightarrow> bool" where
  "is_abort e = (err_name e = ''AbortError'' \<or> err_code e = Some ''ABORT_ERR'')"

text \<open>
  The HTTP client is axios, behind \<open>HttpService\<close> of \<open>@nestjs/axios\<close>. It rejects a request
  whose signal is aborted with its own cancellation error, named \<open>CanceledError\<close> and coded
  \<open>ERR_CANCELED\<close>; otherwise the request settles with what the provider does.
\<close>

definition canceledError :: http_error where
  "canceledError = \<lparr>err_name = ''CanceledError'', err_code = Some ''ERR_CANCELED''\<rparr>"

definition awaitPost :: "mistral_state \<Rightarrow> nat \<Rightarrow> http_result \<Rightarrow> http_result" where
  "awaitPost st abortController providerResult =
     (if aborted st abortController then Rejected canceledError else providerResult)"

text \<open>
  \<open>callMistralAPI\<close> from the settled request on, for the request that holds
  \<open>abortController\<close>. A response without choices throws inside the \<open>try\<close> and reaches the
  same \<open>catch\<close> as a rejection, as an error that is no abort.
\<close>

definition callMistralAPI_finish ::
  "mistral_state \<Rightarrow> string option \<Rightarrow> nat \<Rightarrow> http_result \<Rightarrow> api_outcome \<times> mistral_state" where
  "callMistralAPI_finish st generationId abortController providerResult =
     (case awaitPost st abortController providerResult of
        Fulfilled data \<Rightarrow>
          (case data of
             Some d \<Rightarrow>
               if length (choices d) > 0 then (Returned (Some d), forget generationId st)
               else (Returned None, forget generationId (forget generationId st))
           | None \<Rightarrow> (Returned None, forget generationId (forget generationId st)))
      | Rejected e \<Rightarrow>
          if is_abort e then (Threw (Error ''Generation cancelled''), forget generationId st)
          else (Returned None, forget generationId st))"

definition cancelGeneration :: "mistral_state \<Rightarrow> string \<Rightarrow> bool \<times> mistral_state" where
  "cancelGeneration st generationId =
     (case activeGenerations st generationId of
        Some abortController \<Rightarrow>
          (True, st\<lparr>aborted := (aborted st)(abortController := True),
                   activeGenerations := (activeGenerations st)(generationId := None)\<rparr>)
      | None \<Rightarrow> (False, st))"

definition isGenerationActive :: "mistral_state \<Rightarrow> string \<Rightarrow> bool" where
  "isGenerationActive st generationId = (activeGenerations st generationId \<noteq> None)"

section \<open>RAGService.generateContextualResponse\<close>

record ConversationMessage =
  role :: string
  msg_content :: string
  msg_timestamp :: int

text \<open>
  A conversation context document; \<open>user_context\<close> is the source's \<open>context\<close> field. The
  store is keyed by the pair the lookup uses, \<open>(userId, sessionId)\<close>.
\<close>

record ConversationContext =
  ctx_userId :: string
  sessionId :: string
  messages :: "ConversationMessage list"
  user_context :: user_context
  lastUpdated :: int
  messageCount :: nat

type_synonym context_store = "string \<times> string \<rightharpoonup> ConversationContext"

definition stopKeywords :: "string list" where
  "stopKeywords = [''stop'', ''end'', ''quit'', ''exit'', ''terminate'', ''halt'']"

definition isStopSignal :: "string \<Rightarrow> bool" where
  "isStopSignal q = list_ex (\<lambda>keyword. includes_str (toLowerCase q) keyword) stopKeywords"

definition stopAcknowledgement :: string where
  "stopAcknowledgement =
     ''I understand you want to stop. I'' @ [CHR 0x27] @ ''ll respect that and won''
     @ [CHR 0x27] @ ''t continue this conversation. Feel free to start a new chat when you''
     @ [CHR 0x27] @ ''re ready.''"

definition stoppedMessage :: string where
  "stoppedMessage =
     ''This conversation has been stopped. I won'' @ [CHR 0x27]
     @ ''t continue responding. Please start a new chat if you need assistance.''"

definition fallbackMessage :: string where
  "fallbackMessage =
     ''I'' @ [CHR 0x27] @ ''m having technical issues right now. For immediate concerns, ''
     @ ''please consult with a healthcare professional.''"

definition apologyMessage :: string where
  "apologyMessage = ''I apologize, but I cannot generate a response at this time.''"

text \<open>
  \<open>getOrCreateConversationContext\<close>: the stored document, or a new one with the schema
  default \<open>messageCount = 0\<close>.
\<close>

definition getOrCreateConversationContext ::
  "context_store \<Rightarrow> int \<Rightarrow> string \<Rightarrow> string \<Rightarrow> ConversationContext" where
  "getOrCreateConversationContext store now uid sid =
     (case store (uid, sid) of
        Some c \<Rightarrow> c
      | None \<Rightarrow>
          \<lparr>ctx_userId = uid, sessionId = sid, messages = [],
           user_context = \<lparr>healthConditions = None, medications = None, wellnessGoals = None,
                            recentTopics = None, communicationStyle = Some ''professional''\<rparr>,
           lastUpdated = now, messageCount = 0\<rparr>)"

text \<open>
  \<open>context.save()\<close> validates the document against its schema before it writes: the
  required strings must be non-empty and a role must be one of the three of the enum. A
  document that fails is rejected and nothing is written.
\<close>

definition validMessage :: "ConversationMessage \<Rightarrow> bool" where
  "validMessage m = (role m \<in> set [''user'', ''assistant'', ''system''] \<and> msg_content m \<noteq> [])"

definition validContext :: "ConversationContext \<Rightarrow> bool" where
  "validContext c = (ctx_userId c \<noteq> [] \<and> sessionId c \<noteq> [] \<and> list_all validMessage (messages c))"

definition saveConversationContext ::
  "context_store \<Rightarrow> int \<Rightarrow> ConversationContext \<Rightarrow> error + context_store" where
  "saveConversationContext store now c =
     (if validContext (c\<lparr>lastUpdated := now\<rparr>)
      then Inr (store((ctx_userId c, sessionId c) \<mapsto> c\<lparr>lastUpdated := now\<rparr>))
      else Inl (Error ''ValidationError''))"

text \<open>
  \<open>generateContextualResponse\<close> at clock reading \<open>now\<close>. \<open>providerOutcome\<close> is what the
  awaited \<open>callMistralAPI\<close> settles with, should the call be made. Lines 144-161, which
  retrieve documents and assemble the prompt, are left out: \<open>searchUserRelevantDocuments\<close>
  catches its own errors, the prompt only feeds the provider, whose answer is an input
  here, and neither touches the context store. A rejected save reaches the \<open>catch\<close> block
  like a thrown provider error. The result is the reply, the store afterwards, and whether
  \<open>callMistralAPI\<close> was called.
\<close>

definition generateContextualResponse ::
  "context_store \<Rightarrow> safe_integer \<Rightarrow> string \<Rightarrow> string \<Rightarrow> string option \<Rightarrow> api_outcome
     \<Rightarrow> string \<times> context_store \<times> bool" where
  "generateContextualResponse store now q uid conversationId providerOutcome =
     (if isStopSignal q then (stopAcknowledgement, store, False)
      else
        let ms = Rep_safe_integer now;
            sid = (case conversationId of
                     Some s \<Rightarrow> if s \<noteq> [] then s else ''session_'' @ number_to_string now
                   | None \<Rightarrow> ''session_'' @ number_to_string now);
            conversationContext = getOrCreateConversationContext store ms uid sid
        in
          if messages conversationContext \<noteq> []
             \<and> includes_str (toLowerCase (msg_content (last (messages conversationContext)))) ''stop''
          then (stoppedMessage, store, False)
          else
            let withUser = conversationContext
                  \<lparr>messages := messages conversationContext
                      @ [\<lparr>role = ''user'', msg_content = q, msg_timestamp = ms\<rparr>]\<rparr>
            in
              (case providerOutcome of
                 Returned (Some resp) \<Rightarrow>
                   (case choices resp of
                      c # _ \<Rightarrow>
                        let aiResponse = (case c of
                                            Some text \<Rightarrow> if text \<noteq> [] then text else apologyMessage
                                          | None \<Rightarrow> apologyMessage);
                            withAssistant = withUser
                              \<lparr>messages := messages withUser
                                  @ [\<lparr>role = ''assistant'', msg_content = aiResponse,
                                      msg_timestamp = ms\<rparr>]\<rparr>
                        in (case saveConversationContext store ms withAssistant of
                              Inr store' \<Rightarrow> (aiResponse, store', True)
                            | Inl e \<Rightarrow> (fallbackMessage, store, True))
                    | [] \<Rightarrow> (fallbackMessage, store, True))
               | Returned None \<Rightarrow> (fallbackMessage, store, True)
               | Threw e \<Rightarrow> (fallbackMessage, store, True)))"

text \<open>
  The sibling \<open>updateConversationContext\<close> of the same service, which appends both turns
  and sets \<open>messageCount\<close> before it saves.
\<close>

definition updateConversationContext ::
  "context_store \<Rightarrow> int \<Rightarrow> ConversationContext \<Rightarrow> string \<Rightarrow> string \<Rightarrow> error + context_store" where
  "updateConversationContext store now c userMessage assistantResponse =
     (let ms = messages c
               @ [\<lparr>role = ''user'', msg_content = userMessage, msg_timestamp = now\<rparr>,
                  \<lparr>role = ''assistant'', msg_content = assistantResponse, msg_timestamp = now\<rparr>]
      in saveConversationContext store now (c\<lparr>messages := ms, messageCount := length ms\<rparr>))"

section \<open>Example data\<close>

definition exampleDocument :: "string \<Rightarrow> string list \<Rightarrow> document" where
  "exampleDocument i ks =
     \<lparr>doc_id = i, mongo_id = None, title = ''Sleep hygiene'', content = ''Good sleep matters'',
      category = ''lifestyle'', doc_keywords = ks, evidence_level = ''high'', source = ''who'',
      embedding = None\<rparr>"

definition exampleResult :: "string \<Rightarrow> real \<Rightarrow> real \<Rightarrow> SearchResult" where
  "exampleResult i s r =
     \<lparr>document = exampleDocument i [''sleep'', ''rest''], score = Num s, relevance = Num r,
      result_context = ''Good sleep matters.''\<rparr>"




section \<open>Predicates of the proofs\<close>




section \<open>Properties\<close>

subsection \<open>Cosine similarity\<close>

lemma dot_zero_left:
  "\<forall>z\<in>set Z. z = 0 \<Longrightarrow> foldl (\<lambda>sum (val, w). sum + val * w) s (zip Z B) = (s::real)"
  by (induction Z arbitrary: B s) (auto simp: zip_Cons1 split: list.splits)

lemma squares_zero:
  "\<forall>z\<in>set Z. z = 0 \<Longrightarrow> foldl (\<lambda>sum val. sum + val * val) s Z = (s::real)"
  by (induction Z arbitrary: s) auto

text \<open>
  C2, as stated, fails: for the all-zero vector \<open>[0, 0]\<close> and \<open>B = [3, 4]\<close> the dot product
  and the first magnitude are 0, the division is \<open>0 / 0\<close>, and the result is NaN, not 0.
\<close>

theorem calculateSimilarity_zero_vector_counterexample:
  "calculateSimilarity [0, 0] [3, 4] \<noteq> Inr (Num 0)"
  by (simp add: calculateSimilarity_def js_sign_def)

text \<open>
  C2, amended: for every vector \<open>B\<close> and every all-zero vector \<open>Z\<close> of the same length,
  \<open>calculateSimilarity Z B\<close> returns NaN (the code has no guard for a zero magnitude).
\<close>

theorem calculateSimilarity_zero_vector_NaN:
  assumes "length Z = length B" and "\<forall>z\<in>set Z. z = 0"
  shows "calculateSimilarity Z B = Inr NaN"
  using assms by (simp add: calculateSimilarity_def dot_zero_left squares_zero js_sign_def)

theorem calculateSimilarity_zero_vector_NaN_witness:
  "length [0, 0 :: real] = length [3, 4 :: real] \<and> set [0, 0 :: real] \<subseteq> {0}
   \<and> calculateSimilarity [0, 0] [3, 4] = Inr NaN"
  using calculateSimilarity_zero_vector_NaN [of "[0, 0]" "[3, 4]"] by simp

subsection \<open>Lexical relevance\<close>

lemma split_on_nonempty: "split_on c s \<noteq> []"
  by (induction s) (auto split: list.splits)

lemma share_term:
  assumes "m \<le> n" and "0 < n" and "0 \<le> w"
  shows "\<exists>r. js_mul (js_div (Num (real m)) (Num (real n))) (Num w) = Num r \<and> 0 \<le> r"
  using assms by simp

lemma share_term_filter:
  assumes "xs \<noteq> []" and "0 \<le> w"
  shows "\<exists>r. js_mul (js_div (Num (real (length (filter P xs)))) (Num (real (length xs)))) (Num w)
            = Num r \<and> 0 \<le> r"
  using assms by (intro share_term) simp_all

lemma js_min_one: "0 \<le> a \<Longrightarrow> \<exists>r. js_min (Num a) (Num 1) = Num r \<and> 0 \<le> r \<and> r \<le> 1"
  by simp

lemma calculateRelevance_finite:
  assumes "doc_keywords doc \<noteq> []"
  shows "\<exists>r. calculateRelevance doc qry = Num r \<and> 0 \<le> r \<and> r \<le> 1"
proof -
  let ?ql = "toLowerCase qry"
  have "\<exists>k. js_mul (js_div (Num (real (length (filter (\<lambda>keyword. includes_str (toLowerCase keyword) ?ql) (doc_keywords doc)))))
        (Num (real (length (doc_keywords doc))))) (Num 0.4) = Num k \<and> 0 \<le> k"
    by (rule share_term_filter) (simp_all add: assms)
  then obtain k where k: "js_mul (js_div (Num (real (length (filter (\<lambda>keyword. includes_str (toLowerCase keyword) ?ql) (doc_keywords doc)))))
        (Num (real (length (doc_keywords doc))))) (Num 0.4) = Num k" "0 \<le> k"
    by (elim exE conjE)
  have "\<exists>c. js_mul (js_div (Num (real (length (filter (\<lambda>word. list_ex (\<lambda>contentWord. includes_str contentWord word)
            (split_on CHR '' '' (toLowerCase (content doc)))) (split_on CHR '' '' ?ql)))))
        (Num (real (length (split_on CHR '' '' ?ql))))) (Num 0.3) = Num c \<and> 0 \<le> c"
    by (rule share_term_filter) (simp_all add: split_on_nonempty)
  then obtain c where c: "js_mul (js_div (Num (real (length (filter (\<lambda>word. list_ex (\<lambda>contentWord. includes_str contentWord word)
            (split_on CHR '' '' (toLowerCase (content doc)))) (split_on CHR '' '' ?ql)))))
        (Num (real (length (split_on CHR '' '' ?ql))))) (Num 0.3) = Num c" "0 \<le> c"
    by (elim exE conjE)
  show ?thesis
    unfolding calculateRelevance_def Let_def k c
    using k(2) c(2) by (auto intro!: js_min_one)
qed

lemma calculateRelevance_NaN:
  assumes "doc_keywords doc = []"
  shows "calculateRelevance doc qry = NaN"
  unfolding calculateRelevance_def Let_def using assms by (simp add: js_sign_def)

lemma js_add_NaN_right: "js_add x NaN = NaN" by (cases x) simp_all

lemma calculateUserDocumentRelevance_finite:
  assumes "doc_keywords doc \<noteq> []"
  shows "\<exists>r. calculateUserDocumentRelevance doc qry uc = Num r \<and> 0 \<le> r \<and> r \<le> 1"
proof -
  let ?ql = "toLowerCase qry"
  have "\<exists>k. js_mul (js_div (Num (real (length (filter (\<lambda>keyword. includes_str (toLowerCase keyword) ?ql) (doc_keywords doc)))))
        (Num (real (length (doc_keywords doc))))) (Num 0.4) = Num k \<and> 0 \<le> k"
    by (rule share_term_filter) (simp_all add: assms)
  then obtain k where k: "js_mul (js_div (Num (real (length (filter (\<lambda>keyword. includes_str (toLowerCase keyword) ?ql) (doc_keywords doc)))))
        (Num (real (length (doc_keywords doc))))) (Num 0.4) = Num k" "0 \<le> k"
    by (elim exE conjE)
  have "\<exists>c. js_mul (js_div (Num (real (length (filter (\<lambda>word. list_ex (\<lambda>contentWord. includes_str contentWord word)
            (split_on CHR '' '' (toLowerCase (content doc)))) (split_on CHR '' '' ?ql)))))
        (Num (real (length (split_on CHR '' '' ?ql))))) (Num 0.3) = Num c \<and> 0 \<le> c"
    by (rule share_term_filter) (simp_all add: split_on_nonempty)
  then obtain c where c: "js_mul (js_div (Num (real (length (filter (\<lambda>word. list_ex (\<lambda>contentWord. includes_str contentWord word)
            (split_on CHR '' '' (toLowerCase (content doc)))) (split_on CHR '' '' ?ql)))))
        (Num (real (length (split_on CHR '' '' ?ql))))) (Num 0.3) = Num c" "0 \<le> c"
    by (elim exE conjE)
  show ?thesis
  proof (cases "healthConditions uc")
    case None
    then show ?thesis
      unfolding calculateUserDocumentRelevance_def Let_def k c
      using k(2) c(2) by (auto intro!: js_min_one)
  next
    case (Some conditions)
    show ?thesis
    proof (cases "conditions = []")
      case True
      with Some show ?thesis
        unfolding calculateUserDocumentRelevance_def Let_def k c
        using k(2) c(2) by (auto intro!: js_min_one)
    next
      case False
      have "\<exists>h. js_mul (js_div (Num (real (length (filter (\<lambda>condition. includes_str (toLowerCase (content doc))
                                                              (toLowerCase condition)) conditions))))
           (Num (real (length conditions)))) (Num 0.2) = Num h \<and> 0 \<le> h"
    by (rule share_term_filter) (simp_all add: False)
  then obtain h where h: "js_mul (js_div (Num (real (length (filter (\<lambda>condition. includes_str (toLowerCase (content doc))
                                                              (toLowerCase condition)) conditions))))
           (Num (real (length conditions)))) (Num 0.2) = Num h" "0 \<le> h"
    by (elim exE conjE)
      from Some False show ?thesis
        unfolding calculateUserDocumentRelevance_def Let_def k c
        using k(2) c(2) h by (auto intro!: js_min_one)
    qed
  qed
qed

lemma calculateUserDocumentRelevance_NaN:
  assumes "doc_keywords doc = []"
  shows "calculateUserDocumentRelevance doc qry uc = NaN"
  unfolding calculateUserDocumentRelevance_def Let_def using assms
  by (simp add: js_sign_def js_add_NaN_right split: option.splits)

text \<open>
  C10. For a document with a non-empty keyword list and any query, \<open>calculateRelevance\<close>
  and \<open>calculateUserDocumentRelevance\<close> return a finite number in \<open>[0, 1]\<close>; for a
  document with no keywords the keyword term is \<open>0 / 0\<close> and both return NaN. (The qry
  needs no precondition: \<open>split\<close> never returns an empty list.)
\<close>

theorem relevance_in_unit_interval:
  "(doc_keywords doc \<noteq> [] \<longrightarrow>
      (\<exists>r. calculateRelevance doc qry = Num r \<and> 0 \<le> r \<and> r \<le> 1)
    \<and> (\<exists>r. calculateUserDocumentRelevance doc qry uc = Num r \<and> 0 \<le> r \<and> r \<le> 1))
   \<and> (doc_keywords doc = [] \<longrightarrow>
      calculateRelevance doc qry = NaN \<and> calculateUserDocumentRelevance doc qry uc = NaN)"
  using calculateRelevance_finite calculateUserDocumentRelevance_finite
    calculateRelevance_NaN calculateUserDocumentRelevance_NaN by blast

theorem relevance_in_unit_interval_witness:
  "(doc_keywords \<lparr>doc_id = ''d1'', mongo_id = None, title = ''Sleep hygiene'',
        content = ''Good sleep matters'', category = ''lifestyle'',
        doc_keywords = [''sleep'', ''rest''], evidence_level = ''high'', source = ''who'',
        embedding = None\<rparr> \<noteq> []
    \<and> (\<exists>r. calculateRelevance \<lparr>doc_id = ''d1'', mongo_id = None, title = ''Sleep hygiene'',
        content = ''Good sleep matters'', category = ''lifestyle'',
        doc_keywords = [''sleep'', ''rest''], evidence_level = ''high'', source = ''who'',
        embedding = None\<rparr> ''sleep'' = Num r \<and> 0 \<le> r \<and> r \<le> 1))
   \<and> (doc_keywords \<lparr>doc_id = ''d2'', mongo_id = None, title = ''Sleep hygiene'',
        content = ''Good sleep matters'', category = ''lifestyle'',
        doc_keywords = [], evidence_level = ''high'', source = ''who'',
        embedding = None\<rparr> = []
    \<and> calculateRelevance \<lparr>doc_id = ''d2'', mongo_id = None, title = ''Sleep hygiene'',
        content = ''Good sleep matters'', category = ''lifestyle'',
        doc_keywords = [], evidence_level = ''high'', source = ''who'',
        embedding = None\<rparr> ''sleep'' = NaN)"
  using relevance_in_unit_interval [of "\<lparr>doc_id = ''d1'', mongo_id = None, title = ''Sleep hygiene'',
        content = ''Good sleep matters'', category = ''lifestyle'',
        doc_keywords = [''sleep'', ''rest''], evidence_level = ''high'', source = ''who'',
        embedding = None\<rparr>" "''sleep''"]
    relevance_in_unit_interval [of "\<lparr>doc_id = ''d2'', mongo_id = None, title = ''Sleep hygiene'',
        content = ''Good sleep matters'', category = ''lifestyle'',
        doc_keywords = [], evidence_level = ''high'', source = ''who'',
        embedding = None\<rparr>" "''sleep''"]
  by simp

subsection \<open>Hybrid merge\<close>















































text \<open>
  A list of two or more results, one of which has a NaN combined score, is in descending
  order under no arrangement: the failure below does not depend on how the sort treats an
  inconsistent comparator.
\<close>

lemma nan_never_descending:
  assumes "r \<in> set xs" and "2 \<le> length xs"
    and "js_add (js_mul (Num 0.7) (score r)) (js_mul (Num 0.3) (relevance r)) = NaN"
  shows "\<not> sorted_wrt (\<lambda>a b. js_ge (js_add (js_mul (Num 0.7) (score a)) (js_mul (Num 0.3) (relevance a)))
                               (js_add (js_mul (Num 0.7) (score b)) (js_mul (Num 0.3) (relevance b))))
           xs"
proof
  let ?F = "\<lambda>a. js_add (js_mul (Num 0.7) (score a)) (js_mul (Num 0.3) (relevance a))"
  assume sorted: "sorted_wrt (\<lambda>a b. js_ge (?F a) (?F b)) xs"
  have nan_right: "\<not> js_ge x NaN" for x by (cases x) simp_all
  obtain i where i: "i < length xs" "xs ! i = r"
    using assms(1) by (auto simp: in_set_conv_nth)
  obtain j where j: "j < length xs" "j \<noteq> i"
  proof (cases "i = 0")
    case True
    with assms(2) show ?thesis by (intro that [of 1]) auto
  next
    case False
    with assms(2) show ?thesis by (intro that [of 0]) auto
  qed
  show False
  proof (cases "i < j")
    case True
    then have "js_ge (?F (xs ! i)) (?F (xs ! j))"
      using sorted j(1) by (simp add: sorted_wrt_iff_nth_less)
    then show False by (simp add: i(2) assms(3))
  next
    case False
    then have "j < i" using j(2) by simp
    then have "js_ge (?F (xs ! j)) (?F (xs ! i))"
      using sorted i(1) by (simp add: sorted_wrt_iff_nth_less)
    then show False by (simp add: i(2) assms(3) nan_right)
  qed
qed








subsection \<open>Chunking\<close>

text \<open>
  C9. Every sentence of the text \<open>aaaaa. bbbbb\<close> is 5 characters long, within
  \<open>maxChunkSize = 10\<close>, yet \<open>chunkDocument\<close> emits the single chunk \<open>aaaaa. bbbbb\<close> of 12
  characters: the size test adds the two lengths and leaves out the separator \<open>. \<close>
  that the join inserts.
\<close>

theorem chunkDocument_separator_overflow:
  "map (length \<circ> trim) (sentences ''aaaaa. bbbbb'') = [5, 5]
   \<and> chunkDocument ''aaaaa. bbbbb'' 10 200 = [''aaaaa. bbbbb'']
   \<and> map length (chunkDocument ''aaaaa. bbbbb'' 10 200) = [12]"
  by code_simp

subsection \<open>Search cache\<close>

text \<open>
  A second call with the same query, made while the entry of the first is within its time
  to live, returns the response the first call stored, flag included.
\<close>

lemma searchDocuments_second_call:
  assumes "fst (cache_get True store t1 (searchCacheKey q)) = None"
    and "searchDocuments t1 el True store (Inr rs) q = (r1, store1)"
    and "t2 - (t1 + el) < 3600 * 1000"
  shows "searchDocuments t2 el' True store1 outcome q = (r1, store1)"
    and "cacheHit (metadata r1) = False"
  using assms
  by (auto simp: searchDocuments_def Let_def cache_get_def cache_set_def
           split: option.splits if_splits prod.splits)

text \<open>
  C3. A search for \<open>sleep\<close> at time 1000 finds one document and caches the response; the
  same search at time 2000, well within the hour, is served from the cache. Its results
  are those of the first call, but its \<open>cacheHit\<close> flag is \<open>False\<close>: the stored response is
  returned as it was stored.
\<close>

theorem searchDocuments_cached_response_reports_miss:
  "(case searchDocuments 1000 50 True Map.empty (Inr [exampleResult ''d1'' 0.9 0.4])
           \<lparr>query = ''sleep'', userId = Some ''u1'', filters = None, limit = Some (Abs_safe_integer 3)\<rparr> of
      (first, store1) \<Rightarrow>
        (case searchDocuments 2000 50 True store1 (Inr [])
                \<lparr>query = ''sleep'', userId = Some ''u1'', filters = None, limit = Some (Abs_safe_integer 3)\<rparr> of
           (second, store2) \<Rightarrow>
             results first = [exampleResult ''d1'' 0.9 0.4]
             \<and> results second = results first
             \<and> cacheHit (metadata second) = False))"
  by (simp add: searchDocuments_def Let_def cache_get_def cache_set_def)

text \<open>
  The key of \<open>searchDocuments\<close> changes with the query text and with the user id.
\<close>

lemma searchCacheKey_query:
  "searchCacheKey (q\<lparr>query := a\<rparr>) = searchCacheKey (q\<lparr>query := b\<rparr>) \<longleftrightarrow> a = b"
  by (simp add: searchCacheKey_def)

lemma searchCacheKey_userId:
  "searchCacheKey (q\<lparr>userId := Some u\<rparr>) = searchCacheKey (q\<lparr>userId := Some u'\<rparr>) \<longleftrightarrow> u = u'"
  by (simp add: searchCacheKey_def)

text \<open>
  The sibling \<open>generateCacheKey\<close> does tell two filter values apart.
\<close>

lemma generateCacheKey_reads_filters:
  "generateCacheKey ''sleep'' (Some ''{categories:[condition]}'') (Some ''u1'')
   \<noteq> generateCacheKey ''sleep'' (Some ''{categories:[lifestyle]}'') (Some ''u1'')"
  unfolding generateCacheKey_def Let_def simpleHash_def
  by (simp add: hash_step_def toInt32_def digit_char_def)

text \<open>
  C4. The key \<open>searchDocuments\<close> derives does not read the filters: two queries that differ
  only in their filters get the same key, and a search for category \<open>lifestyle\<close> made
  after a search for category \<open>condition\<close> is answered with the cached response of the
  first.
\<close>

theorem searchCacheKey_ignores_filters:
  "searchCacheKey (q\<lparr>filters := f1\<rparr>) = searchCacheKey (q\<lparr>filters := f2\<rparr>)
   \<and> fst (searchDocuments 2000 50 True
          (snd (searchDocuments 1000 50 True Map.empty (Inr [exampleResult ''d1'' 0.9 0.4])
                  \<lparr>query = ''sleep'', userId = Some ''u1'',
                   filters = Some \<lparr>categories = Some [''condition''], evidenceLevels = None,
                                   sources_filter = None\<rparr>,
                   limit = Some (Abs_safe_integer 3)\<rparr>))
          (Inr [exampleResult ''d2'' 0.8 0.2])
          \<lparr>query = ''sleep'', userId = Some ''u1'',
           filters = Some \<lparr>categories = Some [''lifestyle''], evidenceLevels = None,
                           sources_filter = None\<rparr>,
           limit = Some (Abs_safe_integer 3)\<rparr>)
     = fst (searchDocuments 1000 50 True Map.empty (Inr [exampleResult ''d1'' 0.9 0.4])
              \<lparr>query = ''sleep'', userId = Some ''u1'',
               filters = Some \<lparr>categories = Some [''condition''], evidenceLevels = None,
                               sources_filter = None\<rparr>,
               limit = Some (Abs_safe_integer 3)\<rparr>)"
  by (simp add: searchCacheKey_def searchDocuments_def Let_def cache_get_def cache_set_def)

text \<open>
  C5, as stated, fails: a search that is not served from the cache and returns no result
  still reports confidence 0.8 and the embedding model's name, not 0.0 and \<open>fallback\<close>.
\<close>

theorem searchDocuments_no_results_counterexample:
  "results (fst (searchDocuments 1000 50 True Map.empty (Inr [])
              \<lparr>query = ''sleep'', userId = Some ''u1'', filters = None, limit = Some (Abs_safe_integer 3)\<rparr>)) = []
   \<and> confidence (fst (searchDocuments 1000 50 True Map.empty (Inr [])
              \<lparr>query = ''sleep'', userId = Some ''u1'', filters = None, limit = Some (Abs_safe_integer 3)\<rparr>)) = 0.8
   \<and> model (fst (searchDocuments 1000 50 True Map.empty (Inr [])
              \<lparr>query = ''sleep'', userId = Some ''u1'', filters = None, limit = Some (Abs_safe_integer 3)\<rparr>))
       \<noteq> ''fallback''"
  by (simp add: searchDocuments_def Let_def cache_get_def cache_set_def)

text \<open>
  C5, amended: for a call that is not served from the cache, whenever the hybrid search
  returns, with results or without, the confidence is 0.8 and the model label is
  \<open>mistral-embed\<close>; confidence 0.0 and the label \<open>fallback\<close>, with no results, are returned
  when an exception is caught.
\<close>

theorem searchDocuments_confidence:
  assumes "fst (cache_get redisUp store startTime (searchCacheKey q)) = None"
  shows "confidence (fst (searchDocuments startTime elapsed redisUp store (Inr rs) q)) = 0.8
     \<and> model (fst (searchDocuments startTime elapsed redisUp store (Inr rs) q)) = ''mistral-embed''
     \<and> results (fst (searchDocuments startTime elapsed redisUp store (Inr rs) q)) = rs
     \<and> confidence (fst (searchDocuments startTime elapsed redisUp store (Inl e) q)) = 0
     \<and> model (fst (searchDocuments startTime elapsed redisUp store (Inl e) q)) = ''fallback''
     \<and> results (fst (searchDocuments startTime elapsed redisUp store (Inl e) q)) = []"
proof -
  obtain store' where "cache_get redisUp store startTime (searchCacheKey q) = (None, store')"
    using assms by (cases "cache_get redisUp store startTime (searchCacheKey q)") simp
  then show ?thesis
    by (simp add: searchDocuments_def Let_def)
qed

theorem searchDocuments_confidence_witness:
  "fst (cache_get True Map.empty 1000 (searchCacheKey
          \<lparr>query = ''sleep'', userId = Some ''u1'', filters = None, limit = Some (Abs_safe_integer 3)\<rparr>)) = None
   \<and> confidence (fst (searchDocuments 1000 50 True Map.empty (Inr [])
          \<lparr>query = ''sleep'', userId = Some ''u1'', filters = None, limit = Some (Abs_safe_integer 3)\<rparr>)) = 0.8
   \<and> model (fst (searchDocuments 1000 50 True Map.empty (Inl (Error ''store''))
          \<lparr>query = ''sleep'', userId = Some ''u1'', filters = None, limit = Some (Abs_safe_integer 3)\<rparr>)) = ''fallback''"
proof -
  have miss: "fst (cache_get True Map.empty 1000 (searchCacheKey
          \<lparr>query = ''sleep'', userId = Some ''u1'', filters = None, limit = Some (Abs_safe_integer 3)\<rparr>)) = None"
    by (simp add: cache_get_def)
  from searchDocuments_confidence [OF miss, of 50 "[]" "Error ''store''"] miss show ?thesis
    by simp
qed

subsection \<open>Conversation\<close>

lemma isStopSignalI:
  assumes "keyword \<in> set stopKeywords" and "includes_str (toLowerCase q) keyword"
  shows "isStopSignal q"
  using assms unfolding isStopSignal_def list_ex_iff by blast

text \<open>
  C6. If the lowercased query contains one of the six stop keywords, then
  \<open>generateContextualResponse\<close> returns the fixed acknowledgement, makes no call to the
  completion provider, and returns the context store as it was: no message is appended to
  any session, whatever the user, the session and the provider would have done.
\<close>

theorem stop_signal_short_circuits:
  assumes "keyword \<in> set [''stop'', ''end'', ''quit'', ''exit'', ''terminate'', ''halt'']"
    and "includes_str (toLowerCase q) keyword"
  shows "generateContextualResponse store now q uid conversationId providerOutcome
           = (stopAcknowledgement, store, False)"
proof -
  have "isStopSignal q"
    using assms by (intro isStopSignalI [of keyword]) (simp_all add: stopKeywords_def)
  then show ?thesis by (simp add: generateContextualResponse_def)
qed

theorem stop_signal_short_circuits_witness:
  "''stop'' \<in> set [''stop'', ''end'', ''quit'', ''exit'', ''terminate'', ''halt'']
   \<and> includes_str (toLowerCase ''please stop'') ''stop''
   \<and> generateContextualResponse Map.empty (Abs_safe_integer 1000) ''please stop'' ''u1'' (Some ''s1'')
        (Returned (Some \<lparr>choices = [Some ''hi'']\<rparr>)) = (stopAcknowledgement, Map.empty, False)"
proof -
  have k: "''stop'' \<in> set [''stop'', ''end'', ''quit'', ''exit'', ''terminate'', ''halt'']"
    by simp
  have i: "includes_str (toLowerCase ''please stop'') ''stop''"
    by (simp add: toLowerCase_def toLowerChar_def)
  from stop_signal_short_circuits [OF k i] k i show ?thesis by simp
qed

text \<open>
  The sibling \<open>updateConversationContext\<close> stores a context whose \<open>messageCount\<close> is the
  length of its messages.
\<close>

lemma updateConversationContext_count:
  assumes "updateConversationContext store now c u a = Inr store'"
  shows "map_option (\<lambda>c'. messageCount c' = length (messages c'))
           (store' (ctx_userId c, sessionId c)) = Some True"
  using assms
  by (auto simp: updateConversationContext_def saveConversationContext_def Let_def
           split: if_splits)

text \<open>
  A completed exchange on a stored context appends two messages and leaves
  \<open>messageCount\<close> as it was.
\<close>

lemma generateContextualResponse_persisted:
  assumes "\<not> isStopSignal q" and "q \<noteq> []"
    and "store (uid, sid) = Some c"
    and "sid \<noteq> []"
    and "ctx_userId c = uid" and "sessionId c = sid" and "validContext c"
    and "messages c = [] \<or> \<not> includes_str (toLowerCase (msg_content (last (messages c)))) ''stop''"
  shows "(case generateContextualResponse store now q uid (Some sid)
                 (Returned (Some \<lparr>choices = Some text # rest\<rparr>)) of
            (reply, store', called) \<Rightarrow>
              map_option (\<lambda>c'. (length (messages c'), messageCount c')) (store' (uid, sid))
                = Some (length (messages c) + 2, messageCount c))"
  using assms
  by (auto simp: generateContextualResponse_def getOrCreateConversationContext_def
        saveConversationContext_def validContext_def validMessage_def apologyMessage_def Let_def)

text \<open>
  An empty query fails the validation of the save: the reply is the fallback and nothing
  is persisted.
\<close>

lemma empty_query_not_persisted:
  "generateContextualResponse Map.empty now [] uid (Some ''s1'')
     (Returned (Some \<lparr>choices = [Some ''hi'']\<rparr>)) = (fallbackMessage, Map.empty, True)"
  by (simp add: generateContextualResponse_def isStopSignal_def stopKeywords_def
        toLowerCase_def getOrCreateConversationContext_def saveConversationContext_def
        validContext_def validMessage_def Let_def)

text \<open>
  C7. In a new session, the query \<open>hello\<close> answered by the provider with \<open>hi\<close> persists a
  context with two messages and \<open>messageCount = 0\<close>: \<open>generateContextualResponse\<close> appends
  both turns and saves without setting the count.
\<close>

theorem messageCount_not_maintained:
  "(case generateContextualResponse Map.empty (Abs_safe_integer 1000) ''hello'' ''u1'' (Some ''s1'')
           (Returned (Some \<lparr>choices = [Some ''hi'']\<rparr>)) of
      (reply, store', called) \<Rightarrow>
        reply = ''hi''
        \<and> map_option (\<lambda>c. (length (messages c), messageCount c)) (store' (''u1'', ''s1''))
            = Some (2, 0))"
  by (simp add: generateContextualResponse_def isStopSignal_def stopKeywords_def
        toLowerCase_def toLowerChar_def getOrCreateConversationContext_def
        saveConversationContext_def validContext_def validMessage_def Let_def)

subsection \<open>Cancellation\<close>

lemma forget_removes: "g \<noteq> [] \<Longrightarrow> activeGenerations (forget (Some g) st) g = None"
  by (simp add: forget_def)

text \<open>The registry entry is removed however the request settles.\<close>

lemma finish_removes:
  "g \<noteq> [] \<Longrightarrow>
   activeGenerations (snd (callMistralAPI_finish st (Some g) abortController providerResult)) g
     = None"
  by (simp add: callMistralAPI_finish_def forget_removes
           split: http_result.splits option.splits)

lemma begin_registers:
  assumes "\<not> useFallback st" and "g \<noteq> []"
  shows "callMistralAPI_begin st (Some g)
         = (Pending (next_controller st),
            st\<lparr>aborted := (aborted st)(next_controller st := False),
               next_controller := Suc (next_controller st),
               activeGenerations := (activeGenerations st)(g \<mapsto> next_controller st)\<rparr>)"
  using assms by (simp add: callMistralAPI_begin_def Let_def)

text \<open>
  What the \<open>catch\<close> block is written for: a rejection with an abort error, of a request
  that was not cancelled through the client, makes the call throw \<open>Generation cancelled\<close>.
\<close>

lemma abort_error_throws_cancelled:
  assumes "\<not> aborted st abortController" and "is_abort e"
  shows "fst (callMistralAPI_finish st generationId abortController (Rejected e))
           = Threw (Error ''Generation cancelled'')"
  using assms by (simp add: callMistralAPI_finish_def awaitPost_def)

text \<open>
  A cancelled generation settles with \<open>null\<close>, whatever the provider would have answered:
  the cancellation error of the client is no abort error for the test at line 98.
\<close>

lemma cancelled_generation_returns_null:
  assumes "\<not> useFallback st" and "g \<noteq> []"
  shows "(case callMistralAPI_begin st (Some g) of
            (started, st1) \<Rightarrow>
              (case cancelGeneration st1 g of
                 (ok, st2) \<Rightarrow>
                   ok \<and> aborted st2 (next_controller st) \<and> activeGenerations st2 g = None
                   \<and> fst (callMistralAPI_finish st2 (Some g) (next_controller st) providerResult)
                       = Returned None))"
  using assms
  by (simp add: begin_registers cancelGeneration_def callMistralAPI_finish_def awaitPost_def
        canceledError_def is_abort_def)

text \<open>
  C8. A generation is started under the id \<open>g1\<close> and cancelled while its request is in
  flight. \<open>cancelGeneration\<close> succeeds and aborts the controller of that request, and the
  entry leaves the registry, as the claim says. But the call then returns \<open>null\<close>, not the
  error \<open>Generation cancelled\<close>: the same outcome as a request that fails at the provider
  without any cancellation, which the last conjunct shows.
\<close>

theorem cancelled_generation_looks_failed:
  "(case callMistralAPI_begin
           \<lparr>useFallback = False, activeGenerations = Map.empty, aborted = (\<lambda>a. False),
            next_controller = 0\<rparr> (Some ''g1'') of
      (started, st1) \<Rightarrow>
        started = Pending 0
        \<and> isGenerationActive st1 ''g1''
        \<and> (case cancelGeneration st1 ''g1'' of
              (ok, st2) \<Rightarrow>
                ok \<and> aborted st2 0 \<and> \<not> isGenerationActive st2 ''g1''
                \<and> (case callMistralAPI_finish st2 (Some ''g1'') 0
                           (Fulfilled (Some \<lparr>choices = [Some ''hi'']\<rparr>)) of
                      (outcome, st3) \<Rightarrow>
                        outcome = Returned None
                        \<and> outcome \<noteq> Threw (Error ''Generation cancelled'')
                        \<and> \<not> isGenerationActive st3 ''g1''))
        \<and> fst (callMistralAPI_finish st1 (Some ''g1'') 0
                  (Rejected \<lparr>err_name = ''Error'', err_code = None\<rparr>)) = Returned None)"
  by (simp add: callMistralAPI_begin_def cancelGeneration_def callMistralAPI_finish_def
        awaitPost_def canceledError_def is_abort_def forget_def isGenerationActive_def Let_def)


end
